theory Spec2Isabelle
  imports Main "HOL-Library.Word"
begin

section \<open>Configuration resolution of the metrics viewer (commands/common.go)\<close>

text \<open>
  The development embeds \<^verbatim>\<open>parseCommonConfig\<close> of \<^verbatim>\<open>src/commands/common.go\<close>
  together with the parts of the Go standard library it calls
  (\<^verbatim>\<open>strconv.ParseInt\<close>, \<^verbatim>\<open>strings.Split\<close>, \<^verbatim>\<open>os.Open\<close>,
  \<^verbatim>\<open>os.Getenv\<close>, \<^verbatim>\<open>regexp\<close>). A Go \<^verbatim>\<open>string\<close> is a sequence of
  bytes, which is what \<^typ>\<open>string\<close> is.
\<close>

subsection \<open>Command line flags\<close>

text \<open>\<^verbatim>\<open>components.StringFlag\<close> and \<^verbatim>\<open>components.BoolFlag\<close>, with the fields the file sets.\<close>

datatype Flag =
    StringFlag (Name: string) (Description: string) (DefaultValue: string)
  | BoolFlag (Name: string) (Description: string) (BoolDefaultValue: bool)

definition FileFlag :: Flag where
  "FileFlag = StringFlag ''file'' ''log file with the open metrics format'' ''''"

definition UrlFlag :: Flag where
  "UrlFlag = StringFlag ''url'' ''url endpoint to use to get metrics'' ''''"

definition UserFlag :: Flag where
  "UserFlag = StringFlag ''user'' ''username for url requiring authentication'' ''''"

definition PasswordFlag :: Flag where
  "PasswordFlag = StringFlag ''password'' ''password for url requiring authentication'' ''''"

definition ArtifactoryFlag :: Flag where
  "ArtifactoryFlag = BoolFlag ''artifactory'' ''call Artifactory to get the metrics'' False"

definition ServerFlag :: Flag where
  "ServerFlag = StringFlag ''server''
     ''Artifactory server ID to call when --artifactory is given (uses current by default)'' ''''"

definition IntervalFlag :: Flag where
  "IntervalFlag = StringFlag ''interval'' ''scraping interval in seconds'' ''5''"

definition FilterFlag :: Flag where
  "FilterFlag = StringFlag ''filter'' ''regular expression to use for filtering the metrics'' ''''"

definition AggregateIgnoreLabelsFlag :: Flag where
  "AggregateIgnoreLabelsFlag = StringFlag ''aggregate-ignore-labels''
     ''comma delimited list of labels to ignore when aggregating metrics. Use 'ALL' or 'NONE' to ignore all or none of the labels.''
     ''start,end,status''"

definition getCommonFlags :: "Flag list" where
  "getCommonFlags =
     [FileFlag, UrlFlag, UserFlag, PasswordFlag, ArtifactoryFlag, ServerFlag,
      IntervalFlag, FilterFlag, AggregateIgnoreLabelsFlag]"

text \<open>
  \<^verbatim>\<open>components.Context\<close> holds the flag values in two Go maps; a lookup of a key
  that is absent gives the zero value of the element type.
\<close>

record Context =
  stringFlags :: "string \<rightharpoonup> string"
  boolFlags :: "string \<rightharpoonup> bool"

definition GetStringFlagValue :: "Context \<Rightarrow> string \<Rightarrow> string" where
  "GetStringFlagValue c flagName =
     (case stringFlags c flagName of None \<Rightarrow> '''' | Some v \<Rightarrow> v)"

definition GetBoolFlagValue :: "Context \<Rightarrow> string \<Rightarrow> bool" where
  "GetBoolFlagValue c flagName =
     (case boolFlags c flagName of None \<Rightarrow> False | Some v \<Rightarrow> v)"

subsection \<open>The process environment and the file system\<close>

text \<open>
  The state \<^verbatim>\<open>parseCommonConfig\<close> reads and changes: the environment variables, the
  paths that \<^verbatim>\<open>os.Open\<close> can open for reading, and the file descriptors that are
  open at the moment.
\<close>

record World =
  environ :: "string \<rightharpoonup> string"
  readable :: "string list"
  open_files :: "nat list"

definition Getenv :: "World \<Rightarrow> string \<Rightarrow> string" where
  "Getenv w key = (case environ w key of None \<Rightarrow> '''' | Some v \<Rightarrow> v)"

datatype PathError = PathError string string

definition fresh_fd :: "nat list \<Rightarrow> nat" where
  "fresh_fd fds = Suc (fold max fds 0)"

definition os_Open :: "World \<Rightarrow> string \<Rightarrow> (PathError + nat) \<times> World" where
  "os_Open w name =
     (if name \<in> set (readable w)
      then (let fd = fresh_fd (open_files w)
            in (Inr fd, w\<lparr>open_files := fd # open_files w\<rparr>))
      else (Inl (PathError ''open'' name), w))"

definition File_Close :: "World \<Rightarrow> nat \<Rightarrow> World" where
  "File_Close w fd = w\<lparr>open_files := removeAll fd (open_files w)\<rparr>"

subsection \<open>\<^verbatim>\<open>strconv.ParseInt(s, 10, 64)\<close>\<close>

datatype NumError = ErrSyntax | ErrRange

definition maxUint64 :: "64 word" where
  "maxUint64 = - 1"

text \<open>
  The loop of \<^verbatim>\<open>strconv.ParseUint\<close> for base 10 and bit size 64. A letter gives a
  digit value of at least 10, which is rejected like any other byte that is not a
  decimal digit. On overflow the result is \<^verbatim>\<open>maxVal\<close> with a range error.
\<close>

fun ParseUint_loop :: "64 word \<Rightarrow> string \<Rightarrow> 64 word \<times> NumError option" where
  "ParseUint_loop n [] = (n, None)"
| "ParseUint_loop n (c # cs) =
     (if (48::nat) \<le> of_char c \<and> of_char c \<le> (57::nat)
      then (let d = (of_nat (of_char c - 48) :: 64 word)
            in if n \<ge> maxUint64 div 10 + 1 then (maxUint64, Some ErrRange)
               else (let n' = n * 10; n1 = n' + d
                     in if n1 < n' then (maxUint64, Some ErrRange)
                        else ParseUint_loop n1 cs))
      else (0, Some ErrSyntax))"

definition ParseUint :: "string \<Rightarrow> 64 word \<times> NumError option" where
  "ParseUint s = (if s = [] then (0, Some ErrSyntax) else ParseUint_loop 0 s)"

definition ParseInt :: "string \<Rightarrow> 64 word \<times> NumError option" where
  "ParseInt s =
     (if s = [] then (0, Some ErrSyntax)
      else (let neg = (hd s = CHR ''-'');
                s1 = (if hd s = CHR ''+'' \<or> hd s = CHR ''-'' then tl s else s);
                (un, err) = ParseUint s1
            in if err = Some ErrSyntax then (0, err)
               else (let cutoff = (2 ^ 63 :: 64 word)
                     in if \<not> neg \<and> un \<ge> cutoff then (cutoff - 1, Some ErrRange)
                        else if neg \<and> un > cutoff then (- cutoff, Some ErrRange)
                        else (if neg then - un else un, None))))"

subsection \<open>\<^verbatim>\<open>time.Duration\<close>\<close>

text \<open>A duration is a signed 64-bit count of nanoseconds; its arithmetic wraps around.\<close>

type_synonym Duration = "64 word"

definition Second :: Duration where
  "Second = 1000000000"

subsection \<open>\<^verbatim>\<open>strings.Split\<close> with a one-byte separator\<close>

fun IndexByte :: "string \<Rightarrow> char \<Rightarrow> nat option" where
  "IndexByte [] sep = None"
| "IndexByte (c # cs) sep =
     (if c = sep then Some 0 else map_option Suc (IndexByte cs sep))"

function Split :: "string \<Rightarrow> char \<Rightarrow> string list" where
  "Split s sep =
     (case IndexByte s sep of
        None \<Rightarrow> [s]
      | Some m \<Rightarrow> take m s # Split (drop (Suc m) s) sep)"
  by pat_completeness auto
termination
proof (relation "measure (\<lambda>(s, sep). length s)")
  show "wf (measure (\<lambda>(s, sep). length s))" by simp
next
  fix s :: string and sep :: char and m :: nat
  assume found: "IndexByte s sep = Some m"
  have "\<And>k. IndexByte s sep = Some k \<Longrightarrow> k < length s"
    by (induction s) (auto split: if_splits)
  with found have "m < length s" by blast
  then show "((drop (Suc m) s, sep), (s, sep)) \<in> measure (\<lambda>(s, sep). length s)"
    by simp
qed

declare Split.simps [simp del]

subsection \<open>Compiled regular expressions\<close>

text \<open>
  The syntax tree of \<^verbatim>\<open>regexp/syntax\<close>, by its operators. Characters are runes
  (code points); how the text is cut into runes is the library's UTF-8 decoder, which
  the matcher takes as a parameter: \<open>decode s i\<close> is the rune at byte offset \<open>i\<close>
  and its width, when there is one.
\<close>

datatype regex =
    OpNoMatch
  | OpEmptyMatch
  | OpLiteral nat
  | OpCharClass "(nat \<times> nat) list"
  | OpAnyCharNotNL
  | OpAnyChar
  | OpBeginText
  | OpEndText
  | OpStar regex
  | OpPlus regex
  | OpQuest regex
  | OpConcat regex regex
  | OpAlternate regex regex

type_synonym decoder = "string \<Rightarrow> nat \<Rightarrow> (nat \<times> nat) option"

definition one_rune :: "decoder \<Rightarrow> (nat \<Rightarrow> bool) \<Rightarrow> string \<Rightarrow> nat \<Rightarrow> nat list" where
  "one_rune decode ok t i =
     (case decode t i of
        None \<Rightarrow> []
      | Some (r, w) \<Rightarrow> if ok r then [i + w] else [])"

text \<open>
  \<open>star_from f n i\<close>: the offsets reachable from \<open>i\<close> by repeating a step \<open>f\<close> that
  moves forward, at most \<open>n\<close> times.
\<close>

primrec star_from :: "(nat \<Rightarrow> nat list) \<Rightarrow> nat \<Rightarrow> nat \<Rightarrow> nat list" where
  "star_from f 0 i = [i]"
| "star_from f (Suc n) i = i # concat (map (star_from f n) (filter (\<lambda>j. i < j) (f i)))"

text \<open>\<open>ends decode re t i\<close>: the offsets at which a match of \<open>re\<close> that starts at \<open>i\<close> can end.\<close>

primrec ends :: "decoder \<Rightarrow> regex \<Rightarrow> string \<Rightarrow> nat \<Rightarrow> nat list" where
  "ends decode OpNoMatch t i = []"
| "ends decode OpEmptyMatch t i = [i]"
| "ends decode (OpLiteral r) t i = one_rune decode (\<lambda>x. x = r) t i"
| "ends decode (OpCharClass rs) t i =
     one_rune decode (\<lambda>x. list_ex (\<lambda>(lo, hi). lo \<le> x \<and> x \<le> hi) rs) t i"
| "ends decode OpAnyCharNotNL t i = one_rune decode (\<lambda>x. x \<noteq> 10) t i"
| "ends decode OpAnyChar t i = one_rune decode (\<lambda>x. True) t i"
| "ends decode OpBeginText t i = (if i = 0 then [i] else [])"
| "ends decode OpEndText t i = (if i = length t then [i] else [])"
| "ends decode (OpStar re) t i = star_from (ends decode re t) (length t - i) i"
| "ends decode (OpPlus re) t i =
     concat (map (\<lambda>j. star_from (ends decode re t) (length t - j) j) (ends decode re t i))"
| "ends decode (OpQuest re) t i = i # ends decode re t i"
| "ends decode (OpConcat re1 re2) t i = concat (map (ends decode re2 t) (ends decode re1 t i))"
| "ends decode (OpAlternate re1 re2) t i = ends decode re1 t i @ ends decode re2 t i"

text \<open>\<^verbatim>\<open>(*Regexp).MatchString\<close>: some substring of the text matches.\<close>

definition MatchString :: "decoder \<Rightarrow> regex \<Rightarrow> string \<Rightarrow> bool" where
  "MatchString decode re s = list_ex (\<lambda>i. ends decode re s i \<noteq> []) [0..<Suc (length s)]"

text \<open>
  \<^verbatim>\<open>regexp.MustCompile(".*")\<close>: the pattern is valid, so the call does not panic, and
  it parses to a star over "any character but newline".
\<close>

definition MustCompile_dot_star :: regex where
  "MustCompile_dot_star = OpStar OpAnyCharNotNL"

subsection \<open>\<^verbatim>\<open>provider.StringSet\<close>\<close>

text \<open>
  Modelled from the spec: \<^verbatim>\<open>provider.StringSet\<close> and its method \<^verbatim>\<open>Add\<close> are declared
  in the package \<^verbatim>\<open>provider\<close>, outside \<^verbatim>\<open>commands/common.go\<close>. The spec calls the
  ignore-label configuration "a set of label names", given as an "explicit
  comma-separated list": here it is a set of strings, and \<^verbatim>\<open>Add\<close> puts its arguments
  into it. What the declared type does with the words \<^verbatim>\<open>ALL\<close> and \<^verbatim>\<open>NONE\<close> cannot be read
  from \<^verbatim>\<open>common.go\<close>, which hands them to \<^verbatim>\<open>Add\<close> like every other name; no property
  below is about these words.
\<close>

type_synonym StringSet = "string set"

definition StringSet_Add :: "StringSet \<Rightarrow> string list \<Rightarrow> StringSet" where
  "StringSet_Add s items = s \<union> set items"

subsection \<open>The calls that leave the package\<close>

text \<open>
  \<^verbatim>\<open>commands.GetConfig\<close> (jfrog-cli-core), the two constructors of the package
  \<^verbatim>\<open>provider\<close> and \<^verbatim>\<open>regexp.Compile\<close> are parameters of the model. A call that
  returns \<^verbatim>\<open>(value, error)\<close> is a sum, \<open>Inl\<close> the error's message.
\<close>

record ('d, 'f) externals =
  GetConfig :: "string \<Rightarrow> bool \<Rightarrow> string + 'd"
  NewArtifactoryMetricsFetcher :: "'d \<Rightarrow> string + 'f"
  NewUrlMetricsFetcher :: "string \<Rightarrow> string \<Rightarrow> string \<Rightarrow> 'f"
  Compile :: "string \<Rightarrow> string + regex"

subsection \<open>\<^verbatim>\<open>commonConfiguration\<close> and its methods\<close>

text \<open>
  The fetcher is an interface value and the filter a pointer: both can be \<^verbatim>\<open>nil\<close>,
  which is \<open>None\<close>.
\<close>

record 'f commonConfiguration =
  file_c :: string
  urlMetricsFetcher :: "'f option"
  interval :: Duration
  filter_c :: "regex option"
  aggregateIgnoreLabels :: StringSet

definition UrlMetricsFetcher :: "'f commonConfiguration \<Rightarrow> 'f option" where
  "UrlMetricsFetcher c = urlMetricsFetcher c"

definition File :: "'f commonConfiguration \<Rightarrow> string" where
  "File c = file_c c"

definition Interval :: "'f commonConfiguration \<Rightarrow> Duration" where
  "Interval c = interval c"

definition Filter :: "'f commonConfiguration \<Rightarrow> regex option" where
  "Filter c = filter_c c"

definition AggregateIgnoreLabels :: "'f commonConfiguration \<Rightarrow> StringSet" where
  "AggregateIgnoreLabels c = aggregateIgnoreLabels c"

subsection \<open>\<^verbatim>\<open>parseCommonConfig\<close>\<close>

text \<open>The errors of \<^verbatim>\<open>parseCommonConfig\<close>, one constructor for each \<^verbatim>\<open>fmt.Errorf\<close>.\<close>

datatype error =
    ErrOneFlagRequired
  | ErrOnlyOneFlagRequired
  | ErrCouldNotOpenFile string PathError
  | ErrCouldNotLoadConfig string string
  | ErrCouldNotInitFetcher string
  | ErrFailedToParseInterval string NumError
  | ErrIntervalNotPositive "64 word"
  | ErrInvalidFilter string

text \<open>
  The function returns the pair \<^verbatim>\<open>(*commonConfiguration, error)\<close> of Go, each
  component \<open>None\<close> when it is \<^verbatim>\<open>nil\<close>, and the state of the world it leaves.
  Its body is a sequence of blocks, each of which either returns an error or goes on to
  the next; the blocks are given one by one, in the order of the source, and
  \<open>parseCommonConfig\<close> chains them.
\<close>

text \<open>Lines 111 to 113: the struct literal; the fields it leaves out are zero.\<close>

definition conf0 :: "Context \<Rightarrow> 'f commonConfiguration" where
  "conf0 c = \<lparr>file_c = GetStringFlagValue c ''file'', urlMetricsFetcher = None,
              interval = 0, filter_c = None, aggregateIgnoreLabels = {}\<rparr>"

text \<open>Lines 117 to 126: the number of input flags that are set.\<close>

definition countInputFlags :: "Context \<Rightarrow> nat" where
  "countInputFlags c =
     (let countInputFlags = (0::nat);
          countInputFlags = (if GetStringFlagValue c ''file'' \<noteq> ''''
                             then countInputFlags + 1 else countInputFlags);
          countInputFlags = (if GetStringFlagValue c ''url'' \<noteq> ''''
                             then countInputFlags + 1 else countInputFlags);
          countInputFlags = (if GetBoolFlagValue c ''artifactory''
                             then countInputFlags + 1 else countInputFlags)
      in countInputFlags)"

text \<open>Lines 127 to 132: none of the three needs the mock data variable, more than one is refused.\<close>

definition checkInputFlags :: "World \<Rightarrow> Context \<Rightarrow> error option" where
  "checkInputFlags w c =
     (if countInputFlags c = 0 \<and> Getenv w ''MOCK_METRICS_DATA'' = ''''
      then Some ErrOneFlagRequired
      else if countInputFlags c > 1
      then Some ErrOnlyOneFlagRequired
      else None)"

text \<open>Lines 134 to 140: the file is opened, and closed at once.\<close>

definition checkFile :: "World \<Rightarrow> string \<Rightarrow> error option \<times> World" where
  "checkFile w path =
     (if path \<noteq> ''''
      then (case os_Open w path of
              (Inl err, w1) \<Rightarrow> (Some (ErrCouldNotOpenFile path err), w1)
            | (Inr f, w1) \<Rightarrow> (None, File_Close w1 f))
      else (None, w))"

text \<open>Lines 142 to 156: the fetcher that calls Artifactory.\<close>

definition setArtifactoryFetcher ::
  "('d, 'f) externals \<Rightarrow> Context \<Rightarrow> 'f commonConfiguration \<Rightarrow> error + 'f commonConfiguration" where
  "setArtifactoryFetcher ext c conf =
     (if GetBoolFlagValue c ''artifactory''
      then (let serverId = GetStringFlagValue c ''server''
            in case GetConfig ext serverId False of
                 Inl err \<Rightarrow>
                   Inl (ErrCouldNotLoadConfig
                         (if serverId = ''''
                          then ''could not load configuration for current Artifactory server''
                          else ''could not load configuration for Artifactory server '' @ serverId)
                         err)
               | Inr rtDetails \<Rightarrow>
                   (case NewArtifactoryMetricsFetcher ext rtDetails of
                      Inl err \<Rightarrow> Inl (ErrCouldNotInitFetcher err)
                    | Inr fetcher \<Rightarrow> Inr (conf\<lparr>urlMetricsFetcher := Some fetcher\<rparr>)))
      else Inr conf)"

text \<open>Lines 158 to 162: the fetcher that calls a URL.\<close>

definition setUrlFetcher ::
  "('d, 'f) externals \<Rightarrow> Context \<Rightarrow> 'f commonConfiguration \<Rightarrow> 'f commonConfiguration" where
  "setUrlFetcher ext c conf =
     (let url = GetStringFlagValue c ''url''
      in if url \<noteq> ''''
         then conf\<lparr>urlMetricsFetcher :=
                Some (NewUrlMetricsFetcher ext url
                        (GetStringFlagValue c ''user'')
                        (GetStringFlagValue c ''password''))\<rparr>
         else conf)"

text \<open>Lines 164 to 174: the interval.\<close>

definition setInterval :: "Context \<Rightarrow> 'f commonConfiguration \<Rightarrow> error + 'f commonConfiguration" where
  "setInterval c conf =
     (let flagValue = GetStringFlagValue c ''interval''
      in case ParseInt flagValue of
           (intValue, Some err) \<Rightarrow> Inl (ErrFailedToParseInterval flagValue err)
         | (intValue, None) \<Rightarrow>
             if sint intValue \<le> 0
             then Inl (ErrIntervalNotPositive intValue)
             else Inr (conf\<lparr>interval := intValue * Second\<rparr>))"

text \<open>Lines 176 to 183: the filter.\<close>

definition setFilter ::
  "('d, 'f) externals \<Rightarrow> Context \<Rightarrow> 'f commonConfiguration \<Rightarrow> error + 'f commonConfiguration" where
  "setFilter ext c conf =
     (let conf = conf\<lparr>filter_c := Some MustCompile_dot_star\<rparr>;
          flagValue = GetStringFlagValue c ''filter''
      in if flagValue \<noteq> ''''
         then (case Compile ext flagValue of
                 Inl err \<Rightarrow> Inl (ErrInvalidFilter err)
               | Inr re \<Rightarrow> Inr (conf\<lparr>filter_c := Some re\<rparr>))
         else Inr conf)"

text \<open>Lines 185 to 189: the labels to ignore.\<close>

definition setAggregateIgnoreLabels :: "Context \<Rightarrow> 'f commonConfiguration \<Rightarrow> 'f commonConfiguration" where
  "setAggregateIgnoreLabels c conf =
     (let flagValue = GetStringFlagValue c ''aggregate-ignore-labels'';
          conf = conf\<lparr>aggregateIgnoreLabels := {}\<rparr>
      in if flagValue \<noteq> ''''
         then conf\<lparr>aggregateIgnoreLabels :=
                StringSet_Add (aggregateIgnoreLabels conf) (Split flagValue (CHR '',''))\<rparr>
         else conf)"

definition parseCommonConfig ::
  "('d, 'f) externals \<Rightarrow> World \<Rightarrow> Context \<Rightarrow>
     ('f commonConfiguration option \<times> error option) \<times> World" where
  "parseCommonConfig ext w c =
    (let conf = conf0 c
     in case checkInputFlags w c of
          Some e \<Rightarrow> ((None, Some e), w)
        | None \<Rightarrow>
     (case checkFile w (file_c conf) of
          (Some e, w1) \<Rightarrow> ((None, Some e), w1)
        | (None, w1) \<Rightarrow>
     (case setArtifactoryFetcher ext c conf of
          Inl e \<Rightarrow> ((None, Some e), w1)
        | Inr conf \<Rightarrow>
     (case setInterval c (setUrlFetcher ext c conf) of
          Inl e \<Rightarrow> ((None, Some e), w1)
        | Inr conf \<Rightarrow>
     (case setFilter ext c conf of
          Inl e \<Rightarrow> ((None, Some e), w1)
        | Inr conf \<Rightarrow> ((Some (setAggregateIgnoreLabels c conf), None), w1))))))"

subsection \<open>Notions used to state the properties\<close>

text \<open>
  The number of metrics sources that the flags select, counted from the three flag
  values themselves.
\<close>

definition selected_sources :: "Context \<Rightarrow> nat" where
  "selected_sources c =
     length (filter id [GetStringFlagValue c ''file'' \<noteq> '''',
                        GetStringFlagValue c ''url'' \<noteq> '''',
                        GetBoolFlagValue c ''artifactory''])"

text \<open>
  Joining with a separator, the inverse of splitting: a list of pieces is the result of
  splitting \<open>s\<close> on a separator when no piece holds the separator and the pieces joined
  by it give \<open>s\<close> back.
\<close>

fun Join :: "string list \<Rightarrow> char \<Rightarrow> string" where
  "Join [] sep = []"
| "Join [p] sep = p"
| "Join (p # q # ps) sep = p @ sep # Join (q # ps) sep"

text \<open>A context without the filter flag.\<close>

definition without_filter :: "Context \<Rightarrow> Context" where
  "without_filter c = c\<lparr>stringFlags := (stringFlags c)(''filter'' := None)\<rparr>"

text \<open>
  The integer that a string denotes in base 10: an optional sign, then one or more
  decimal digits, read most significant digit first. No bound is put on the value.
\<close>

definition is_digit :: "char \<Rightarrow> bool" where
  "is_digit c = ((48::nat) \<le> of_char c \<and> of_char c \<le> (57::nat))"

fun decimal :: "nat \<Rightarrow> string \<Rightarrow> nat" where
  "decimal acc [] = acc"
| "decimal acc (c # cs) = decimal (acc * 10 + (of_char c - 48)) cs"

definition decimal_integer :: "string \<Rightarrow> int option" where
  "decimal_integer s =
     (let neg = (s \<noteq> [] \<and> hd s = CHR ''-'');
          ds = (if s \<noteq> [] \<and> (hd s = CHR ''+'' \<or> hd s = CHR ''-'') then tl s else s)
      in if ds \<noteq> [] \<and> list_all is_digit ds
         then Some (if neg then - int (decimal 0 ds) else int (decimal 0 ds))
         else None)"

subsection \<open>Concrete inputs\<close>

text \<open>
  An instance of the outside calls: the server \<open>bad\<close> has no configuration, every other
  one has; the only patterns the instance knows are \<open>a+\<close>, which is valid, and the rest,
  which it refuses.
\<close>

definition ext_ex :: "(string, string \<times> string \<times> string) externals" where
  "ext_ex =
     \<lparr>GetConfig = (\<lambda>serverId excludeRefreshableTokens.
                     if serverId = ''bad'' then Inl ''Server ID bad does not exist.''
                     else Inr serverId),
      NewArtifactoryMetricsFetcher = (\<lambda>rtDetails. Inr (rtDetails, '''', '''')),
      NewUrlMetricsFetcher = (\<lambda>url username password. (url, username, password)),
      Compile = (\<lambda>expr. if expr = ''a+'' then Inr (OpPlus (OpLiteral 97))
                         else Inl ''error parsing regexp'')\<rparr>"

definition world_ex :: World where
  "world_ex = \<lparr>environ = Map.empty, readable = [''metrics.log''], open_files = [0, 1, 2]\<rparr>"

definition world_mock :: World where
  "world_mock = \<lparr>environ = [''MOCK_METRICS_DATA'' \<mapsto> ''true''], readable = [],
                 open_files = [0, 1, 2]\<rparr>"

definition ctx :: "(string \<times> string) list \<Rightarrow> (string \<times> bool) list \<Rightarrow> Context" where
  "ctx ss bs = \<lparr>stringFlags = map_of ss, boolFlags = map_of bs\<rparr>"

text \<open>One byte, one rune: a decoder for text in ASCII.\<close>

definition decode_ascii :: decoder where
  "decode_ascii s i = (if i < length s then Some (of_char (s ! i), 1) else None)"

section \<open>Properties\<close>

subsection \<open>The blocks\<close>

lemma countInputFlags_selected: "countInputFlags c = selected_sources c"
  by (simp add: countInputFlags_def selected_sources_def Let_def)

lemma checkInputFlags_eq:
  "checkInputFlags w c =
     (if selected_sources c = 0 \<and> Getenv w ''MOCK_METRICS_DATA'' = ''''
      then Some ErrOneFlagRequired
      else if 2 \<le> selected_sources c then Some ErrOnlyOneFlagRequired
      else None)"
  by (auto simp: checkInputFlags_def countInputFlags_selected)

lemma fresh_fd_notin: "fresh_fd fds \<notin> set fds"
proof -
  have le: "\<And>a. \<forall>x \<in> set fds \<union> {a}. x \<le> fold max fds a"
  proof (induction fds)
    case Nil
    show ?case by simp
  next
    case (Cons f fds)
    have "\<forall>x \<in> set fds \<union> {max f a}. x \<le> fold max fds (max f a)"
      by (rule Cons.IH)
    then show ?case by auto
  qed
  have "\<forall>x \<in> set fds. x < fresh_fd fds"
    using le [of 0] by (auto simp: fresh_fd_def less_Suc_eq_le)
  then show ?thesis by blast
qed

lemma checkFile_eq:
  "checkFile w path =
     (if path \<noteq> '''' \<and> path \<notin> set (readable w)
      then Some (ErrCouldNotOpenFile path (PathError ''open'' path)) else None, w)"
  by (simp add: checkFile_def os_Open_def File_Close_def Let_def fresh_fd_notin)

lemma setArtifactoryFetcher_fields:
  assumes "setArtifactoryFetcher ext c conf = Inr conf'"
  shows "file_c conf' = file_c conf" and "interval conf' = interval conf"
    and "filter_c conf' = filter_c conf"
    and "aggregateIgnoreLabels conf' = aggregateIgnoreLabels conf"
  using assms
  by (auto simp: setArtifactoryFetcher_def Let_def split: if_splits sum.splits)

lemma setUrlFetcher_fields:
  "file_c (setUrlFetcher ext c conf) = file_c conf"
  "interval (setUrlFetcher ext c conf) = interval conf"
  "filter_c (setUrlFetcher ext c conf) = filter_c conf"
  "aggregateIgnoreLabels (setUrlFetcher ext c conf) = aggregateIgnoreLabels conf"
  by (simp_all add: setUrlFetcher_def Let_def)

lemma setInterval_Inr:
  assumes "setInterval c conf = Inr conf'"
  shows "\<exists>v. ParseInt (GetStringFlagValue c ''interval'') = (v, None) \<and> 0 < sint v \<and>
             conf' = conf\<lparr>interval := v * Second\<rparr>"
  using assms
  by (auto simp: setInterval_def Let_def split: prod.splits option.splits if_splits)

lemma setInterval_Inl:
  assumes "ParseInt (GetStringFlagValue c ''interval'') = (v, e)" and "e \<noteq> None \<or> sint v \<le> 0"
  shows "\<exists>err. setInterval c conf = Inl err"
  using assms
  by (auto simp: setInterval_def Let_def split: prod.splits option.splits if_splits)

lemma setFilter_eq:
  "setFilter ext c conf =
     (if GetStringFlagValue c ''filter'' = ''''
      then Inr (conf\<lparr>filter_c := Some MustCompile_dot_star\<rparr>)
      else case Compile ext (GetStringFlagValue c ''filter'') of
             Inl err \<Rightarrow> Inl (ErrInvalidFilter err)
           | Inr re \<Rightarrow> Inr (conf\<lparr>filter_c := Some re\<rparr>))"
  by (simp add: setFilter_def Let_def split: sum.split)

lemma setAggregateIgnoreLabels_eq:
  "setAggregateIgnoreLabels c conf =
     conf\<lparr>aggregateIgnoreLabels :=
            (if GetStringFlagValue c ''aggregate-ignore-labels'' = '''' then {}
             else set (Split (GetStringFlagValue c ''aggregate-ignore-labels'') (CHR '','')))\<rparr>"
  by (simp add: setAggregateIgnoreLabels_def StringSet_Add_def Let_def)

subsection \<open>The chain of blocks\<close>

lemma parse_unfold:
  "parseCommonConfig ext w c =
     (case checkInputFlags w c of
        Some e \<Rightarrow> ((None, Some e), w)
      | None \<Rightarrow>
     (case fst (checkFile w (GetStringFlagValue c ''file'')) of
        Some e \<Rightarrow> ((None, Some e), w)
      | None \<Rightarrow>
     (case setArtifactoryFetcher ext c (conf0 c) of
        Inl e \<Rightarrow> ((None, Some e), w)
      | Inr c1 \<Rightarrow>
     (case setInterval c (setUrlFetcher ext c c1) of
        Inl e \<Rightarrow> ((None, Some e), w)
      | Inr c2 \<Rightarrow>
     (case setFilter ext c c2 of
        Inl e \<Rightarrow> ((None, Some e), w)
      | Inr c3 \<Rightarrow> ((Some (setAggregateIgnoreLabels c c3), None), w))))))"
proof -
  obtain r where r: "checkFile w (GetStringFlagValue c ''file'') = (r, w)"
    by (simp add: checkFile_eq)
  show ?thesis
    by (simp add: parseCommonConfig_def Let_def conf0_def r split: option.split sum.split)
qed

lemma parse_world: "snd (parseCommonConfig ext w c) = w"
  by (simp add: parse_unfold split: option.split sum.split)

lemma parse_shape:
  "(\<exists>conf. fst (parseCommonConfig ext w c) = (Some conf, None)) \<or>
   (\<exists>e. fst (parseCommonConfig ext w c) = (None, Some e))"
  by (simp add: parse_unfold split: option.split sum.split)

lemma parse_SomeD:
  assumes "fst (fst (parseCommonConfig ext w c)) = Some conf"
  obtains c1 c2 c3 where "checkInputFlags w c = None"
    and "fst (checkFile w (GetStringFlagValue c ''file'')) = None"
    and "setArtifactoryFetcher ext c (conf0 c) = Inr c1"
    and "setInterval c (setUrlFetcher ext c c1) = Inr c2"
    and "setFilter ext c c2 = Inr c3"
    and "conf = setAggregateIgnoreLabels c c3"
  using assms
  by (auto simp: parse_unfold split: option.splits sum.splits)

lemma parse_SomeI:
  assumes "checkInputFlags w c = None"
    and "fst (checkFile w (GetStringFlagValue c ''file'')) = None"
    and "setArtifactoryFetcher ext c (conf0 c) = Inr c1"
    and "setInterval c (setUrlFetcher ext c c1) = Inr c2"
    and "setFilter ext c c2 = Inr c3"
  shows "parseCommonConfig ext w c = ((Some (setAggregateIgnoreLabels c c3), None), w)"
  using assms by (simp add: parse_unfold)

lemma parse_error_iff:
  "(\<exists>e. fst (parseCommonConfig ext w c) = (None, Some e)) \<longleftrightarrow>
   fst (fst (parseCommonConfig ext w c)) = None"
  using parse_shape [of ext w c] by auto

subsection \<open>Evaluation of concrete inputs\<close>

lemmas eval_defs =
  parseCommonConfig_def conf0_def checkInputFlags_def countInputFlags_def checkFile_def
  os_Open_def File_Close_def fresh_fd_def setArtifactoryFetcher_def setUrlFetcher_def
  setInterval_def setFilter_def setAggregateIgnoreLabels_def StringSet_Add_def
  ParseInt_def ParseUint_def maxUint64_def Second_def MustCompile_dot_star_def
  GetStringFlagValue_def GetBoolFlagValue_def Getenv_def selected_sources_def
  ext_ex_def world_ex_def world_mock_def ctx_def Let_def Split.simps

section \<open>The claims\<close>

subsection \<open>C1: exactly one metrics source\<close>

text \<open>
  C1, as stated, fails: with none of the three sources selected and the environment
  variable \<^verbatim>\<open>MOCK_METRICS_DATA\<close> set, \<open>parseCommonConfig\<close> returns a configuration
  and no error (line 127 asks for the variable to be empty before it refuses).
\<close>

theorem C1_counterexample:
  "selected_sources (ctx [(''interval'', ''5''), (''aggregate-ignore-labels'', ''start,end,status'')] []) = 0
   \<and> fst (parseCommonConfig ext_ex world_mock
            (ctx [(''interval'', ''5''), (''aggregate-ignore-labels'', ''start,end,status'')] []))
     = (Some \<lparr>file_c = '''', urlMetricsFetcher = None, interval = 5000000000,
               filter_c = Some (OpStar OpAnyCharNotNL),
               aggregateIgnoreLabels = {''start'', ''end'', ''status''}\<rparr>, None)"
  by (simp add: eval_defs)

text \<open>
  C1, amended: whenever two or more of the file, url and artifactory sources are
  selected, \<open>parseCommonConfig\<close> returns an error and no configuration; and whenever
  none of the three is selected and \<^verbatim>\<open>MOCK_METRICS_DATA\<close> is empty, it returns an
  error and no configuration.
\<close>

theorem exactly_one_source:
  "(2 \<le> selected_sources c \<longrightarrow>
      fst (parseCommonConfig ext w c) = (None, Some ErrOnlyOneFlagRequired)) \<and>
   (selected_sources c = 0 \<and> Getenv w ''MOCK_METRICS_DATA'' = '''' \<longrightarrow>
      fst (parseCommonConfig ext w c) = (None, Some ErrOneFlagRequired))"
  by (simp add: parse_unfold checkInputFlags_eq)

theorem exactly_one_source_witness:
  "2 \<le> selected_sources (ctx [(''file'', ''metrics.log''), (''url'', ''http://localhost/metrics'')] [])
   \<and> fst (parseCommonConfig ext_ex world_ex
            (ctx [(''file'', ''metrics.log''), (''url'', ''http://localhost/metrics'')] []))
       = (None, Some ErrOnlyOneFlagRequired)
   \<and> selected_sources (ctx [(''interval'', ''5'')] []) = 0
   \<and> Getenv world_ex ''MOCK_METRICS_DATA'' = ''''
   \<and> fst (parseCommonConfig ext_ex world_ex (ctx [(''interval'', ''5'')] []))
       = (None, Some ErrOneFlagRequired)"
proof -
  have two: "2 \<le> selected_sources
      (ctx [(''file'', ''metrics.log''), (''url'', ''http://localhost/metrics'')] [])"
    by (simp add: selected_sources_def GetStringFlagValue_def GetBoolFlagValue_def ctx_def)
  have none: "selected_sources (ctx [(''interval'', ''5'')] []) = 0"
    by (simp add: selected_sources_def GetStringFlagValue_def GetBoolFlagValue_def ctx_def)
  have env: "Getenv world_ex ''MOCK_METRICS_DATA'' = ''''"
    by (simp add: Getenv_def world_ex_def)
  show ?thesis
    using two none env
      exactly_one_source [where ext = ext_ex and w = world_ex and
        c = "ctx [(''file'', ''metrics.log''), (''url'', ''http://localhost/metrics'')] []"]
      exactly_one_source [where ext = ext_ex and w = world_ex and
        c = "ctx [(''interval'', ''5'')] []"]
    by simp
qed

subsection \<open>C8: the mock data variable\<close>

lemma parse_err_cases:
  fixes ext :: "('d, 'f) externals"
  assumes "snd (fst (parseCommonConfig ext w c)) = Some e"
  shows "checkInputFlags w c = Some e
       \<or> fst (checkFile w (GetStringFlagValue c ''file'')) = Some e
       \<or> setArtifactoryFetcher ext c (conf0 c) = Inl e
       \<or> (\<exists>c1 :: 'f commonConfiguration. setInterval c c1 = Inl e)
       \<or> (\<exists>c2 :: 'f commonConfiguration. setFilter ext c c2 = Inl e)"
  using assms
  apply (simp add: parse_unfold split: option.splits sum.splits)
   apply blast+
  done

lemma later_blocks_not_ErrOneFlagRequired:
  "fst (checkFile w path) \<noteq> Some ErrOneFlagRequired"
  "setArtifactoryFetcher ext c conf \<noteq> Inl ErrOneFlagRequired"
  "setInterval c conf \<noteq> Inl ErrOneFlagRequired"
  "setFilter ext c conf \<noteq> Inl ErrOneFlagRequired"
     apply (simp add: checkFile_eq)
    apply (simp add: setArtifactoryFetcher_def Let_def split: sum.split)
   apply (simp add: setInterval_def Let_def split: prod.split option.split)
  apply (simp add: setFilter_eq split: sum.split)
  done

text \<open>
  C8: the missing-source error is returned exactly when none of the three sources is
  selected and \<^verbatim>\<open>MOCK_METRICS_DATA\<close> is empty; so with no source selected and the
  variable set, configuration resolution does not fail for lack of a source.
\<close>

theorem missing_source_error_iff:
  "snd (fst (parseCommonConfig ext w c)) = Some ErrOneFlagRequired \<longleftrightarrow>
   selected_sources c = 0 \<and> Getenv w ''MOCK_METRICS_DATA'' = ''''"
proof
  assume "snd (fst (parseCommonConfig ext w c)) = Some ErrOneFlagRequired"
  then have "checkInputFlags w c = Some ErrOneFlagRequired"
    using parse_err_cases [of ext w c ErrOneFlagRequired]
    by (auto simp: later_blocks_not_ErrOneFlagRequired)
  then show "selected_sources c = 0 \<and> Getenv w ''MOCK_METRICS_DATA'' = ''''"
    by (simp add: checkInputFlags_eq split: if_splits)
next
  assume "selected_sources c = 0 \<and> Getenv w ''MOCK_METRICS_DATA'' = ''''"
  then show "snd (fst (parseCommonConfig ext w c)) = Some ErrOneFlagRequired"
    by (simp add: parse_unfold checkInputFlags_eq)
qed

theorem missing_source_error_iff_witness:
  "selected_sources (ctx [(''interval'', ''0'')] []) = 0
   \<and> Getenv world_mock ''MOCK_METRICS_DATA'' = ''true''
   \<and> snd (fst (parseCommonConfig ext_ex world_mock (ctx [(''interval'', ''0'')] [])))
       \<noteq> Some ErrOneFlagRequired
   \<and> Getenv world_ex ''MOCK_METRICS_DATA'' = ''''
   \<and> snd (fst (parseCommonConfig ext_ex world_ex (ctx [(''interval'', ''0'')] [])))
       = Some ErrOneFlagRequired"
proof -
  have none: "selected_sources (ctx [(''interval'', ''0'')] []) = 0"
    by (simp add: selected_sources_def GetStringFlagValue_def GetBoolFlagValue_def ctx_def)
  have mock: "Getenv world_mock ''MOCK_METRICS_DATA'' = ''true''"
    by (simp add: Getenv_def world_mock_def)
  have env: "Getenv world_ex ''MOCK_METRICS_DATA'' = ''''"
    by (simp add: Getenv_def world_ex_def)
  show ?thesis
    using none mock env
      missing_source_error_iff [where ext = ext_ex and w = world_mock and
        c = "ctx [(''interval'', ''0'')] []"]
      missing_source_error_iff [where ext = ext_ex and w = world_ex and
        c = "ctx [(''interval'', ''0'')] []"]
    by simp
qed

subsection \<open>C9: the file is opened and closed at once\<close>

text \<open>
  C9: when the file source is selected and its path cannot be opened, the result is an
  error and no configuration. When the path can be opened, the descriptor that
  \<open>os_Open\<close> hands out is open after the call to \<open>os_Open\<close> and is not open when
  \<open>parseCommonConfig\<close> returns, which leaves the world as it found it; a configuration
  that is returned keeps the path, as a string.
\<close>

theorem file_opened_and_closed:
  assumes "path = GetStringFlagValue c ''file''" and "path \<noteq> ''''"
  shows "(path \<notin> set (readable w) \<longrightarrow>
            (\<exists>e. fst (parseCommonConfig ext w c) = (None, Some e))) \<and>
         (path \<in> set (readable w) \<longrightarrow>
            (\<exists>fd w1. os_Open w path = (Inr fd, w1) \<and> fd \<in> set (open_files w1) \<and>
                fd \<notin> set (open_files (snd (parseCommonConfig ext w c))))) \<and>
         snd (parseCommonConfig ext w c) = w \<and>
         (\<forall>conf. fst (fst (parseCommonConfig ext w c)) = Some conf \<longrightarrow>
            file_c conf = path \<and> File conf = path)"
proof (intro conjI impI allI)
  assume "path \<notin> set (readable w)"
  then have "fst (fst (parseCommonConfig ext w c)) = None"
    using assms by (simp add: parse_unfold checkFile_eq split: option.split)
  then show "\<exists>e. fst (parseCommonConfig ext w c) = (None, Some e)"
    by (simp add: parse_error_iff)
next
  assume "path \<in> set (readable w)"
  then show "\<exists>fd w1. os_Open w path = (Inr fd, w1) \<and> fd \<in> set (open_files w1) \<and>
      fd \<notin> set (open_files (snd (parseCommonConfig ext w c)))"
    by (simp add: os_Open_def Let_def parse_world fresh_fd_notin)
next
  show "snd (parseCommonConfig ext w c) = w"
    by (rule parse_world)
next
  fix conf
  assume ok: "fst (fst (parseCommonConfig ext w c)) = Some conf"
  then obtain c1 c2 c3 where
    c1: "setArtifactoryFetcher ext c (conf0 c) = Inr c1" and
    c2: "setInterval c (setUrlFetcher ext c c1) = Inr c2" and
    c3: "setFilter ext c c2 = Inr c3" and
    conf: "conf = setAggregateIgnoreLabels c c3"
    by (rule parse_SomeD)
  have "file_c c1 = path"
    using setArtifactoryFetcher_fields(1) [OF c1] assms(1) by (simp add: conf0_def)
  moreover have "file_c c2 = file_c c1"
    using setInterval_Inr [OF c2] by (auto simp: setUrlFetcher_fields)
  moreover have "file_c c3 = file_c c2"
    using c3 by (auto simp: setFilter_eq split: if_splits sum.splits)
  ultimately have "file_c conf = path"
    by (simp add: conf setAggregateIgnoreLabels_eq)
  then show "file_c conf = path" and "File conf = path"
    by (simp_all add: File_def)
qed

theorem file_opened_and_closed_witness:
  "''metrics.log'' = GetStringFlagValue (ctx [(''file'', ''metrics.log''), (''interval'', ''5'')] []) ''file''
   \<and> ''metrics.log'' \<in> set (readable world_ex)
   \<and> os_Open world_ex ''metrics.log'' = (Inr 3, world_ex\<lparr>open_files := [3, 0, 1, 2]\<rparr>)
   \<and> snd (parseCommonConfig ext_ex world_ex (ctx [(''file'', ''metrics.log''), (''interval'', ''5'')] []))
       = world_ex
   \<and> fst (fst (parseCommonConfig ext_ex world_ex (ctx [(''file'', ''metrics.log''), (''interval'', ''5'')] [])))
       = Some \<lparr>file_c = ''metrics.log'', urlMetricsFetcher = None, interval = 5000000000,
               filter_c = Some (OpStar OpAnyCharNotNL), aggregateIgnoreLabels = {}\<rparr>
   \<and> ''missing.log'' = GetStringFlagValue (ctx [(''file'', ''missing.log'')] []) ''file''
   \<and> ''missing.log'' \<notin> set (readable world_ex)
   \<and> fst (parseCommonConfig ext_ex world_ex (ctx [(''file'', ''missing.log'')] []))
       = (None, Some (ErrCouldNotOpenFile ''missing.log'' (PathError ''open'' ''missing.log'')))"
proof -
  have p1: "''metrics.log'' =
      GetStringFlagValue (ctx [(''file'', ''metrics.log''), (''interval'', ''5'')] []) ''file''"
    by (simp add: GetStringFlagValue_def ctx_def)
  have p2: "''missing.log'' = GetStringFlagValue (ctx [(''file'', ''missing.log'')] []) ''file''"
    by (simp add: GetStringFlagValue_def ctx_def)
  have ne: "''metrics.log'' \<noteq> ''''" "''missing.log'' \<noteq> ''''"
    by simp_all
  have r: "''metrics.log'' \<in> set (readable world_ex)" "''missing.log'' \<notin> set (readable world_ex)"
    by (simp_all add: world_ex_def)
  have op: "os_Open world_ex ''metrics.log'' = (Inr 3, world_ex\<lparr>open_files := [3, 0, 1, 2]\<rparr>)"
    by (simp add: os_Open_def world_ex_def fresh_fd_def Let_def)
  have v1: "fst (fst (parseCommonConfig ext_ex world_ex
               (ctx [(''file'', ''metrics.log''), (''interval'', ''5'')] [])))
       = Some \<lparr>file_c = ''metrics.log'', urlMetricsFetcher = None, interval = 5000000000,
               filter_c = Some (OpStar OpAnyCharNotNL), aggregateIgnoreLabels = {}\<rparr>"
    by (simp add: eval_defs)
  have v2: "fst (parseCommonConfig ext_ex world_ex (ctx [(''file'', ''missing.log'')] []))
       = (None, Some (ErrCouldNotOpenFile ''missing.log'' (PathError ''open'' ''missing.log'')))"
    by (simp add: eval_defs)
  show ?thesis
    using p1 r op v1 v2 p2
      file_opened_and_closed [OF p1 ne(1), where ext = ext_ex and w = world_ex]
      file_opened_and_closed [OF p2 ne(2), where ext = ext_ex and w = world_ex]
    by simp
qed

subsection \<open>C7: a configuration or an error, never both\<close>

text \<open>
  C7, as stated, fails for the same reason as C1: a missing source selection is not an
  error when \<^verbatim>\<open>MOCK_METRICS_DATA\<close> is set. Here no source is selected, a valid filter is
  given, and the call returns a configuration.
\<close>

theorem C7_counterexample:
  "selected_sources (ctx [(''interval'', ''2''), (''filter'', ''a+'')] []) = 0
   \<and> fst (parseCommonConfig ext_ex world_mock (ctx [(''interval'', ''2''), (''filter'', ''a+'')] []))
     = (Some \<lparr>file_c = '''', urlMetricsFetcher = None, interval = 2000000000,
               filter_c = Some (OpPlus (OpLiteral 97)), aggregateIgnoreLabels = {}\<rparr>, None)"
  by (simp add: eval_defs)

text \<open>
  C7, amended: for every input, \<open>parseCommonConfig\<close> returns either a configuration and
  no error, or no configuration and an error, never both and never neither; and it
  returns the error outcome for every input with a conflicting source selection, with
  no source selected while \<^verbatim>\<open>MOCK_METRICS_DATA\<close> is empty, with an interval that does
  not parse or is not positive, or with a filter pattern that does not compile.
\<close>

theorem resolution_atomic:
  "((\<exists>conf. fst (parseCommonConfig ext w c) = (Some conf, None)) \<or>
    (\<exists>e. fst (parseCommonConfig ext w c) = (None, Some e))) \<and>
   (2 \<le> selected_sources c
    \<or> (selected_sources c = 0 \<and> Getenv w ''MOCK_METRICS_DATA'' = '''')
    \<or> snd (ParseInt (GetStringFlagValue c ''interval'')) \<noteq> None
    \<or> sint (fst (ParseInt (GetStringFlagValue c ''interval''))) \<le> 0
    \<or> (GetStringFlagValue c ''filter'' \<noteq> '''' \<and> isl (Compile ext (GetStringFlagValue c ''filter'')))
    \<longrightarrow> (\<exists>e. fst (parseCommonConfig ext w c) = (None, Some e)))"
proof (intro conjI impI)
  show "(\<exists>conf. fst (parseCommonConfig ext w c) = (Some conf, None)) \<or>
    (\<exists>e. fst (parseCommonConfig ext w c) = (None, Some e))"
    by (rule parse_shape)
next
  assume bad: "2 \<le> selected_sources c
    \<or> (selected_sources c = 0 \<and> Getenv w ''MOCK_METRICS_DATA'' = '''')
    \<or> snd (ParseInt (GetStringFlagValue c ''interval'')) \<noteq> None
    \<or> sint (fst (ParseInt (GetStringFlagValue c ''interval''))) \<le> 0
    \<or> (GetStringFlagValue c ''filter'' \<noteq> '''' \<and> isl (Compile ext (GetStringFlagValue c ''filter'')))"
  have "fst (fst (parseCommonConfig ext w c)) = None"
  proof (rule ccontr)
    assume "fst (fst (parseCommonConfig ext w c)) \<noteq> None"
    then obtain conf where "fst (fst (parseCommonConfig ext w c)) = Some conf"
      by blast
    then obtain c1 c2 c3 where
      flags: "checkInputFlags w c = None" and
      c2: "setInterval c (setUrlFetcher ext c c1) = Inr c2" and
      c3: "setFilter ext c c2 = Inr c3"
      by (rule parse_SomeD)
    from flags have "\<not> 2 \<le> selected_sources c"
      and "\<not> (selected_sources c = 0 \<and> Getenv w ''MOCK_METRICS_DATA'' = '''')"
      by (simp_all add: checkInputFlags_eq split: if_splits)
    moreover from setInterval_Inr [OF c2]
    have "snd (ParseInt (GetStringFlagValue c ''interval'')) = None"
      and "\<not> sint (fst (ParseInt (GetStringFlagValue c ''interval''))) \<le> 0"
      by auto
    moreover from c3
    have "\<not> (GetStringFlagValue c ''filter'' \<noteq> '''' \<and>
              isl (Compile ext (GetStringFlagValue c ''filter'')))"
      by (auto simp: setFilter_eq split: if_splits sum.splits)
    ultimately show False
      using bad by blast
  qed
  then show "\<exists>e. fst (parseCommonConfig ext w c) = (None, Some e)"
    by (simp add: parse_error_iff)
qed

theorem resolution_atomic_witness:
  "sint (fst (ParseInt (GetStringFlagValue
       (ctx [(''url'', ''http://localhost/metrics''), (''interval'', ''-3'')] []) ''interval''))) \<le> 0
   \<and> fst (parseCommonConfig ext_ex world_ex
            (ctx [(''url'', ''http://localhost/metrics''), (''interval'', ''-3'')] []))
       = (None, Some (ErrIntervalNotPositive (- 3)))"
proof -
  have v: "ParseInt (GetStringFlagValue
       (ctx [(''url'', ''http://localhost/metrics''), (''interval'', ''-3'')] []) ''interval'')
      = (- 3, None)"
    by (simp add: ParseInt_def ParseUint_def maxUint64_def GetStringFlagValue_def ctx_def)
  have neg: "sint (fst (ParseInt (GetStringFlagValue
       (ctx [(''url'', ''http://localhost/metrics''), (''interval'', ''-3'')] []) ''interval''))) \<le> 0"
    by (simp add: v)
  have r: "fst (parseCommonConfig ext_ex world_ex
            (ctx [(''url'', ''http://localhost/metrics''), (''interval'', ''-3'')] []))
       = (None, Some (ErrIntervalNotPositive (- 3)))"
    by (simp add: eval_defs)
  show ?thesis
    using neg r
      resolution_atomic [where ext = ext_ex and w = world_ex and
        c = "ctx [(''url'', ''http://localhost/metrics''), (''interval'', ''-3'')] []"]
    by simp
qed

subsection \<open>C5: without a filter flag every name passes\<close>

lemma ends_star_self: "i \<in> set (ends decode (OpStar re) t i)"
  by (cases "length t - i") simp_all

lemma MatchString_star: "MatchString decode (OpStar re) s"
proof -
  have "ends decode (OpStar re) s 0 \<noteq> []"
    using ends_star_self [of 0 decode re s] by auto
  then show ?thesis
    unfolding MatchString_def list_ex_iff
    by (intro bexI [of _ 0]) simp_all
qed

lemma parse_filter:
  assumes "fst (fst (parseCommonConfig ext w c)) = Some conf"
  shows "filter_c conf =
           (if GetStringFlagValue c ''filter'' = '''' then Some MustCompile_dot_star
            else (case Compile ext (GetStringFlagValue c ''filter'') of
                    Inl err \<Rightarrow> None | Inr re \<Rightarrow> Some re))"
proof -
  from assms obtain c2 c3 where
    c3: "setFilter ext c c2 = Inr c3" and conf: "conf = setAggregateIgnoreLabels c c3"
    by (rule parse_SomeD)
  from c3 show ?thesis
    by (auto simp: conf setAggregateIgnoreLabels_eq setFilter_eq split: if_splits sum.splits)
qed

text \<open>
  C5: when the filter flag is empty, a configuration that is returned holds the filter
  compiled from \<^verbatim>\<open>.*\<close>, and that filter matches every string \<open>s\<close>, however the
  text is cut into runes.
\<close>

theorem default_filter_matches_all:
  assumes "fst (fst (parseCommonConfig ext w c)) = Some conf"
    and "GetStringFlagValue c ''filter'' = ''''"
  shows "\<exists>re. Filter conf = Some re \<and> (\<forall>s. MatchString decode re s)"
  using parse_filter [OF assms(1)] assms(2)
  by (auto simp: Filter_def MustCompile_dot_star_def MatchString_star)

theorem default_filter_matches_all_witness:
  "fst (fst (parseCommonConfig ext_ex world_ex (ctx [(''file'', ''metrics.log''), (''interval'', ''5'')] [])))
     = Some \<lparr>file_c = ''metrics.log'', urlMetricsFetcher = None, interval = 5000000000,
             filter_c = Some (OpStar OpAnyCharNotNL), aggregateIgnoreLabels = {}\<rparr>
   \<and> GetStringFlagValue (ctx [(''file'', ''metrics.log''), (''interval'', ''5'')] []) ''filter'' = ''''
   \<and> MatchString decode_ascii (OpStar OpAnyCharNotNL) ''cpu_usage''"
proof -
  have ok: "fst (fst (parseCommonConfig ext_ex world_ex
               (ctx [(''file'', ''metrics.log''), (''interval'', ''5'')] [])))
     = Some \<lparr>file_c = ''metrics.log'', urlMetricsFetcher = None, interval = 5000000000,
             filter_c = Some (OpStar OpAnyCharNotNL), aggregateIgnoreLabels = {}\<rparr>"
    by (simp add: eval_defs)
  have nofilter: "GetStringFlagValue
      (ctx [(''file'', ''metrics.log''), (''interval'', ''5'')] []) ''filter'' = ''''"
    by (simp add: GetStringFlagValue_def ctx_def)
  show ?thesis
    using ok nofilter default_filter_matches_all [OF ok nofilter, of decode_ascii]
    by (simp add: Filter_def)
qed

subsection \<open>C4: the labels to ignore\<close>

lemma IndexByte_None: "IndexByte s sep = None \<Longrightarrow> sep \<notin> set s"
  by (induction s) (auto split: if_splits)

lemma IndexByte_Some:
  "IndexByte s sep = Some m \<Longrightarrow> m < length s \<and> s ! m = sep \<and> sep \<notin> set (take m s)"
proof (induction s arbitrary: m)
  case Nil
  then show ?case by simp
next
  case (Cons a s)
  show ?case
  proof (cases "a = sep")
    case True
    with Cons.prems show ?thesis by simp
  next
    case False
    with Cons.prems obtain k where k: "IndexByte s sep = Some k" and m: "m = Suc k"
      by auto
    from Cons.IH [OF k] False show ?thesis
      by (simp add: m)
  qed
qed

lemma Split_not_Nil: "Split s sep \<noteq> []"
  by (subst Split.simps) (simp split: option.split)

lemma Join_Cons: "ps \<noteq> [] \<Longrightarrow> Join (p # ps) sep = p @ sep # Join ps sep"
  by (cases ps) simp_all

lemma Join_Split: "Join (Split s sep) sep = s"
proof (induction s sep rule: Split.induct)
  case (1 s sep)
  show ?case
  proof (cases "IndexByte s sep")
    case None
    then show ?thesis by (subst Split.simps) simp
  next
    case (Some m)
    from IndexByte_Some [OF Some] have m: "m < length s" and at: "s ! m = sep"
      by simp_all
    have "Join (Split s sep) sep = take m s @ sep # Join (Split (drop (Suc m) s) sep) sep"
      by (subst Split.simps) (simp add: Some Join_Cons Split_not_Nil)
    also have "\<dots> = take m s @ sep # drop (Suc m) s"
      using "1.IH" [OF Some] by simp
    also have "\<dots> = s"
      using m at by (metis Cons_nth_drop_Suc append_take_drop_id)
    finally show ?thesis .
  qed
qed

lemma Split_no_sep: "p \<in> set (Split s sep) \<Longrightarrow> sep \<notin> set p"
proof (induction s sep arbitrary: p rule: Split.induct)
  case (1 s sep)
  show ?case
  proof (cases "IndexByte s sep")
    case None
    with "1.prems" have "p = s"
      by (subst (asm) Split.simps) simp
    with IndexByte_None [OF None] show ?thesis by simp
  next
    case (Some m)
    with "1.prems" have "p = take m s \<or> p \<in> set (Split (drop (Suc m) s) sep)"
      by (subst (asm) Split.simps) simp
    then show ?thesis
      using IndexByte_Some [OF Some] "1.IH" [OF Some] by blast
  qed
qed

lemma parse_labels:
  assumes "fst (fst (parseCommonConfig ext w c)) = Some conf"
  shows "aggregateIgnoreLabels conf =
           (if GetStringFlagValue c ''aggregate-ignore-labels'' = '''' then {}
            else set (Split (GetStringFlagValue c ''aggregate-ignore-labels'') (CHR '','')))"
proof -
  from assms obtain c3 where "conf = setAggregateIgnoreLabels c c3"
    by (rule parse_SomeD)
  then show ?thesis
    by (simp add: setAggregateIgnoreLabels_eq)
qed

text \<open>
  C4: when the flag has its default value, the resolved set is
  \<open>{start, end, status}\<close>; and for every flag value that is not empty, the resolved set
  is the set of the pieces that \<^verbatim>\<open>strings.Split\<close> cuts the value into at the commas:
  pieces without a comma which, joined by commas, give the flag value.
\<close>

theorem ignore_labels_resolved:
  assumes "fst (fst (parseCommonConfig ext w c)) = Some conf"
    and "flagValue = GetStringFlagValue c ''aggregate-ignore-labels''"
  shows "(flagValue = DefaultValue AggregateIgnoreLabelsFlag \<longrightarrow>
            AggregateIgnoreLabels conf = {''start'', ''end'', ''status''}) \<and>
         (flagValue \<noteq> '''' \<longrightarrow>
            AggregateIgnoreLabels conf = set (Split flagValue (CHR '','')) \<and>
            Join (Split flagValue (CHR '','')) (CHR '','') = flagValue \<and>
            (\<forall>p \<in> set (Split flagValue (CHR '','')). CHR '','' \<notin> set p))"
proof (intro conjI impI)
  assume "flagValue = DefaultValue AggregateIgnoreLabelsFlag"
  then have v: "GetStringFlagValue c ''aggregate-ignore-labels'' = ''start,end,status''"
    using assms(2) by (simp add: AggregateIgnoreLabelsFlag_def)
  have "Split ''start,end,status'' (CHR '','') = [''start'', ''end'', ''status'']"
    by (simp add: Split.simps)
  then show "AggregateIgnoreLabels conf = {''start'', ''end'', ''status''}"
    using parse_labels [OF assms(1)] by (simp add: v AggregateIgnoreLabels_def)
next
  assume "flagValue \<noteq> ''''"
  then show "AggregateIgnoreLabels conf = set (Split flagValue (CHR '',''))"
    using parse_labels [OF assms(1)] assms(2) by (simp add: AggregateIgnoreLabels_def)
next
  show "Join (Split flagValue (CHR '','')) (CHR '','') = flagValue"
    by (rule Join_Split)
next
  show "\<forall>p \<in> set (Split flagValue (CHR '','')). CHR '','' \<notin> set p"
    using Split_no_sep by blast
qed

theorem ignore_labels_resolved_witness:
  "fst (fst (parseCommonConfig ext_ex world_ex
        (ctx [(''file'', ''metrics.log''), (''interval'', ''5''),
              (''aggregate-ignore-labels'', ''start,end,status'')] [])))
     = Some \<lparr>file_c = ''metrics.log'', urlMetricsFetcher = None, interval = 5000000000,
             filter_c = Some (OpStar OpAnyCharNotNL),
             aggregateIgnoreLabels = {''start'', ''end'', ''status''}\<rparr>
   \<and> ''start,end,status'' = DefaultValue AggregateIgnoreLabelsFlag
   \<and> Split ''start,end,status'' (CHR '','') = [''start'', ''end'', ''status'']
   \<and> Join [''start'', ''end'', ''status''] (CHR '','') = ''start,end,status''"
proof -
  have ok: "fst (fst (parseCommonConfig ext_ex world_ex
        (ctx [(''file'', ''metrics.log''), (''interval'', ''5''),
              (''aggregate-ignore-labels'', ''start,end,status'')] [])))
     = Some \<lparr>file_c = ''metrics.log'', urlMetricsFetcher = None, interval = 5000000000,
             filter_c = Some (OpStar OpAnyCharNotNL),
             aggregateIgnoreLabels = {''start'', ''end'', ''status''}\<rparr>"
    by (simp add: eval_defs)
  have v: "''start,end,status'' = GetStringFlagValue
        (ctx [(''file'', ''metrics.log''), (''interval'', ''5''),
              (''aggregate-ignore-labels'', ''start,end,status'')] []) ''aggregate-ignore-labels''"
    by (simp add: GetStringFlagValue_def ctx_def)
  have d: "''start,end,status'' = DefaultValue AggregateIgnoreLabelsFlag"
    by (simp add: AggregateIgnoreLabelsFlag_def)
  have sp: "Split ''start,end,status'' (CHR '','') = [''start'', ''end'', ''status'']"
    by (simp add: Split.simps)
  show ?thesis
    using ok d sp ignore_labels_resolved [OF ok v]
    by simp
qed

subsection \<open>C6: the filter pattern\<close>

lemma without_filter_string:
  "GetStringFlagValue (without_filter c) flagName =
     (if flagName = ''filter'' then '''' else GetStringFlagValue c flagName)"
  by (simp add: without_filter_def GetStringFlagValue_def)

lemma without_filter_bool:
  "GetBoolFlagValue (without_filter c) flagName = GetBoolFlagValue c flagName"
  by (simp add: without_filter_def GetBoolFlagValue_def)

lemma without_filter_blocks:
  "checkInputFlags w (without_filter c) = checkInputFlags w c"
  "conf0 (without_filter c) = conf0 c"
  "setArtifactoryFetcher ext (without_filter c) conf = setArtifactoryFetcher ext c conf"
  "setUrlFetcher ext (without_filter c) conf = setUrlFetcher ext c conf"
  "setInterval (without_filter c) conf = setInterval c conf"
  "setAggregateIgnoreLabels (without_filter c) conf = setAggregateIgnoreLabels c conf"
  "setFilter ext (without_filter c) conf = Inr (conf\<lparr>filter_c := Some MustCompile_dot_star\<rparr>)"
  by (simp_all add: checkInputFlags_def countInputFlags_def conf0_def setArtifactoryFetcher_def
      setUrlFetcher_def setInterval_def setAggregateIgnoreLabels_def setFilter_eq
      without_filter_string without_filter_bool Let_def)

text \<open>
  C6: for every filter flag value that is not empty and does not compile,
  \<open>parseCommonConfig\<close> returns an error and no configuration; for every one that
  compiles, the filter block of lines 176 to 183 succeeds: an input that passes the
  checks before it, which is to say that it resolves without the filter flag, resolves
  to the same configuration with the compiled form of exactly that pattern as its
  filter.
\<close>

theorem filter_resolved:
  assumes "flagValue = GetStringFlagValue c ''filter''" and "flagValue \<noteq> ''''"
  shows "(\<forall>err. Compile ext flagValue = Inl err \<longrightarrow>
            (\<exists>e. fst (parseCommonConfig ext w c) = (None, Some e))) \<and>
         (\<forall>re base. Compile ext flagValue = Inr re \<and>
              fst (fst (parseCommonConfig ext w (without_filter c))) = Some base \<longrightarrow>
            fst (parseCommonConfig ext w c) = (Some (base\<lparr>filter_c := Some re\<rparr>), None) \<and>
            Filter (base\<lparr>filter_c := Some re\<rparr>) = Some re)"
proof (intro conjI allI impI)
  fix err
  assume "Compile ext flagValue = Inl err"
  then have "\<And>conf. setFilter ext c conf = Inl (ErrInvalidFilter err)"
    using assms by (simp add: setFilter_eq)
  then have "fst (fst (parseCommonConfig ext w c)) = None"
    by (simp add: parse_unfold split: option.split sum.split)
  then show "\<exists>e. fst (parseCommonConfig ext w c) = (None, Some e)"
    by (simp add: parse_error_iff)
next
  fix re base
  assume a: "Compile ext flagValue = Inr re \<and>
    fst (fst (parseCommonConfig ext w (without_filter c))) = Some base"
  then obtain b1 b2 b3 where
    flags: "checkInputFlags w (without_filter c) = None" and
    fl: "fst (checkFile w (GetStringFlagValue (without_filter c) ''file'')) = None" and
    b1: "setArtifactoryFetcher ext (without_filter c) (conf0 (without_filter c)) = Inr b1" and
    b2: "setInterval (without_filter c) (setUrlFetcher ext (without_filter c) b1) = Inr b2" and
    b3: "setFilter ext (without_filter c) b2 = Inr b3" and
    base: "base = setAggregateIgnoreLabels (without_filter c) b3"
    by (auto elim: parse_SomeD)
  have b3': "b3 = b2\<lparr>filter_c := Some MustCompile_dot_star\<rparr>"
    using b3 by (simp add: without_filter_blocks)
  have "setFilter ext c b2 = Inr (b2\<lparr>filter_c := Some re\<rparr>)"
    using a assms by (simp add: setFilter_eq)
  then have "parseCommonConfig ext w c =
      ((Some (setAggregateIgnoreLabels c (b2\<lparr>filter_c := Some re\<rparr>)), None), w)"
    using flags fl b1 b2
    by (intro parse_SomeI) (simp_all add: without_filter_blocks without_filter_string)
  moreover have "base = setAggregateIgnoreLabels c (b2\<lparr>filter_c := Some MustCompile_dot_star\<rparr>)"
    by (simp add: base b3' without_filter_blocks)
  then have "setAggregateIgnoreLabels c (b2\<lparr>filter_c := Some re\<rparr>) =
      base\<lparr>filter_c := Some re\<rparr>"
    by (simp add: setAggregateIgnoreLabels_eq)
  ultimately show "fst (parseCommonConfig ext w c) = (Some (base\<lparr>filter_c := Some re\<rparr>), None)"
    by simp
  show "Filter (base\<lparr>filter_c := Some re\<rparr>) = Some re"
    by (simp add: Filter_def)
qed

theorem filter_resolved_witness:
  "''a+'' = GetStringFlagValue
       (ctx [(''file'', ''metrics.log''), (''interval'', ''5''), (''filter'', ''a+'')] []) ''filter''
   \<and> Compile ext_ex ''a+'' = Inr (OpPlus (OpLiteral 97))
   \<and> fst (fst (parseCommonConfig ext_ex world_ex (without_filter
        (ctx [(''file'', ''metrics.log''), (''interval'', ''5''), (''filter'', ''a+'')] []))))
      = Some \<lparr>file_c = ''metrics.log'', urlMetricsFetcher = None, interval = 5000000000,
              filter_c = Some (OpStar OpAnyCharNotNL), aggregateIgnoreLabels = {}\<rparr>
   \<and> fst (parseCommonConfig ext_ex world_ex
        (ctx [(''file'', ''metrics.log''), (''interval'', ''5''), (''filter'', ''a+'')] []))
      = (Some \<lparr>file_c = ''metrics.log'', urlMetricsFetcher = None, interval = 5000000000,
               filter_c = Some (OpPlus (OpLiteral 97)), aggregateIgnoreLabels = {}\<rparr>, None)
   \<and> ''(('' = GetStringFlagValue
       (ctx [(''file'', ''metrics.log''), (''interval'', ''5''), (''filter'', ''(('')] []) ''filter''
   \<and> Compile ext_ex ''(('' = Inl ''error parsing regexp''
   \<and> fst (parseCommonConfig ext_ex world_ex
        (ctx [(''file'', ''metrics.log''), (''interval'', ''5''), (''filter'', ''(('')] []))
      = (None, Some (ErrInvalidFilter ''error parsing regexp''))"
proof -
  have f1: "''a+'' = GetStringFlagValue
       (ctx [(''file'', ''metrics.log''), (''interval'', ''5''), (''filter'', ''a+'')] []) ''filter''"
    by (simp add: GetStringFlagValue_def ctx_def)
  have f2: "''(('' = GetStringFlagValue
       (ctx [(''file'', ''metrics.log''), (''interval'', ''5''), (''filter'', ''(('')] []) ''filter''"
    by (simp add: GetStringFlagValue_def ctx_def)
  have ne: "''a+'' \<noteq> ''''" "''(('' \<noteq> ''''"
    by simp_all
  have c1: "Compile ext_ex ''a+'' = Inr (OpPlus (OpLiteral 97))"
    and c2: "Compile ext_ex ''(('' = Inl ''error parsing regexp''"
    by (simp_all add: ext_ex_def)
  have base: "fst (fst (parseCommonConfig ext_ex world_ex (without_filter
        (ctx [(''file'', ''metrics.log''), (''interval'', ''5''), (''filter'', ''a+'')] []))))
      = Some \<lparr>file_c = ''metrics.log'', urlMetricsFetcher = None, interval = 5000000000,
              filter_c = Some (OpStar OpAnyCharNotNL), aggregateIgnoreLabels = {}\<rparr>"
    by (simp add: eval_defs without_filter_def)
  have bad: "fst (parseCommonConfig ext_ex world_ex
        (ctx [(''file'', ''metrics.log''), (''interval'', ''5''), (''filter'', ''(('')] []))
      = (None, Some (ErrInvalidFilter ''error parsing regexp''))"
    by (simp add: eval_defs)
  show ?thesis
    using f1 f2 c1 c2 base bad
      filter_resolved [OF f1 ne(1), where ext = ext_ex and w = world_ex]
      filter_resolved [OF f2 ne(2), where ext = ext_ex and w = world_ex]
    by simp
qed

subsection \<open>C2 and C10: the interval\<close>

text \<open>
  \<open>ParseInt\<close> accepts exactly the strings that denote an integer of 64 bits in base
  10, and returns that integer.
\<close>

lemma decimal_ge: "acc \<le> decimal acc ds"
proof (induction ds arbitrary: acc)
  case Nil
  show ?case by simp
next
  case (Cons c ds)
  have "acc \<le> acc * 10 + (of_char c - 48)" by simp
  also have "\<dots> \<le> decimal (acc * 10 + (of_char c - 48)) ds" by (rule Cons.IH)
  finally show ?case by simp
qed

lemma cutoff_val: "unat (maxUint64 div 10 + 1) = 1844674407370955162"
  by (simp add: maxUint64_def)

lemma loop_digits:
  "list_all is_digit ds \<Longrightarrow>
   ParseUint_loop n ds =
     (if decimal (unat n) ds < 2 ^ 64 then (of_nat (decimal (unat n) ds), None)
      else (maxUint64, Some ErrRange))"
proof (induction ds arbitrary: n)
  case Nil
  have "unat n < 2 ^ 64" using unsigned_less [of n] by simp
  then show ?case by simp
next
  case (Cons c ds)
  from Cons.prems have isd: "is_digit c" and rest: "list_all is_digit ds"
    by simp_all
  from isd have dig: "(48::nat) \<le> of_char c" "of_char c \<le> (57::nat)"
    by (simp_all add: is_digit_def)
  define d where "d = (of_char c - 48 :: nat)"
  have d9: "d \<le> 9" using dig by (simp add: d_def)
  have ud: "unat (of_nat d :: 64 word) = d"
    using d9 by (simp add: unat_of_nat)
  show ?case
  proof (cases "n \<ge> maxUint64 div 10 + 1")
    case True
    then have "1844674407370955162 \<le> unat n"
      by (simp add: word_le_nat_alt cutoff_val)
    then have "2 ^ 64 \<le> unat n * 10 + d" by simp
    also have "\<dots> \<le> decimal (unat n * 10 + d) ds" by (rule decimal_ge)
    finally have "\<not> decimal (unat n) (c # ds) < 2 ^ 64"
      by (simp add: d_def)
    then show ?thesis
      using True dig by (simp add: Let_def)
  next
    case False
    then have small: "unat n \<le> 1844674407370955161"
      by (simp add: word_le_nat_alt cutoff_val)
    have u10: "unat (n * 10) = unat n * 10"
      using small by (simp add: unat_word_ariths)
    show ?thesis
    proof (cases "n * 10 + of_nat d < n * 10")
      case True
      then have "\<not> n * 10 \<le> n * 10 + of_nat d" by simp
      then have "\<not> unat (n * 10) + unat (of_nat d :: 64 word) < 2 ^ 64"
        by (simp add: no_olen_add_nat)
      then have "2 ^ 64 \<le> unat n * 10 + d"
        by (simp add: u10 ud)
      also have "\<dots> \<le> decimal (unat n * 10 + d) ds" by (rule decimal_ge)
      finally have "\<not> decimal (unat n) (c # ds) < 2 ^ 64"
        by (simp add: d_def)
      then show ?thesis
        using False True dig by (simp add: Let_def d_def)
    next
      case nowrap: False
      then have "n * 10 \<le> n * 10 + of_nat d" by simp
      then have "unat (n * 10) + unat (of_nat d :: 64 word) < 2 ^ 64"
        by (simp add: no_olen_add_nat)
      then have "unat (n * 10 + of_nat d) = unat (n * 10) + unat (of_nat d :: 64 word)"
        using unat_add_lem [of "n * 10" "of_nat d :: 64 word"] by simp
      then have "unat (n * 10 + of_nat d) = unat n * 10 + d"
        by (simp only: u10 ud)
      then show ?thesis
        using False nowrap dig Cons.IH [OF rest, of "n * 10 + of_nat d"]
        by (simp add: Let_def d_def)
    qed
  qed
qed

lemma loop_Cons_not_digit:
  "\<not> is_digit c \<Longrightarrow> ParseUint_loop n (c # cs) = (0, Some ErrSyntax)"
  by (auto simp: is_digit_def)

lemma loop_not_digits:
  "\<not> list_all is_digit ds \<Longrightarrow> snd (ParseUint_loop n ds) \<noteq> None"
proof (induction ds arbitrary: n)
  case Nil
  then show ?case by simp
next
  case (Cons c ds)
  show ?case
  proof (cases "is_digit c")
    case True
    with Cons.prems have nd: "\<not> list_all is_digit ds" by simp
    from True have dig: "(48::nat) \<le> of_char c" "of_char c \<le> (57::nat)"
      by (simp_all add: is_digit_def)
    have IH: "\<And>m. snd (ParseUint_loop m ds) \<noteq> None"
      by (rule Cons.IH [OF nd])
    show ?thesis
      using IH by (simp add: dig Let_def)
  next
    case False
    then show ?thesis by (simp add: loop_Cons_not_digit del: ParseUint_loop.simps)
  qed
qed

lemma ParseUint_None_iff:
  "snd (ParseUint ds) = None \<longleftrightarrow> ds \<noteq> [] \<and> list_all is_digit ds \<and> decimal 0 ds < 2 ^ 64"
proof (cases "list_all is_digit ds")
  case True
  then show ?thesis
    using loop_digits [of ds 0] by (simp add: ParseUint_def)
next
  case False
  then show ?thesis
    using loop_not_digits [of ds 0] by (simp add: ParseUint_def)
qed

lemma ParseUint_value:
  "ds \<noteq> [] \<Longrightarrow> list_all is_digit ds \<Longrightarrow> decimal 0 ds < 2 ^ 64 \<Longrightarrow>
   ParseUint ds = (of_nat (decimal 0 ds), None)"
  using loop_digits [of ds 0] by (simp add: ParseUint_def)
lemma le_cutoff_of_nat:
  "m < 2 ^ 64 \<Longrightarrow> ((2 ^ 63 :: 64 word) \<le> of_nat m) = (2 ^ 63 \<le> m)"
  by (simp add: word_le_nat_alt unat_of_nat)

lemma less_cutoff_of_nat:
  "m < 2 ^ 64 \<Longrightarrow> ((2 ^ 63 :: 64 word) < of_nat m) = (2 ^ 63 < m)"
  by (simp add: word_less_nat_alt unat_of_nat)

lemma sint_of_int_range:
  assumes "- (2 ^ 63) \<le> k" "k < 2 ^ 63"
  shows "sint (word_of_int k :: 64 word) = k"
proof -
  have "sint (word_of_int k :: 64 word) = signed_take_bit 63 k"
    by (simp add: signed_of_int)
  also have "\<dots> = k"
    using assms by (simp add: signed_take_bit_int_eq_self)
  finally show ?thesis .
qed

lemma sint_of_nat_small:
  "m < 2 ^ 63 \<Longrightarrow> sint (of_nat m :: 64 word) = int m"
  using sint_of_int_range [of "int m"] by simp

lemma sint_neg_of_nat:
  "m \<le> 2 ^ 63 \<Longrightarrow> sint (- of_nat m :: 64 word) = - int m"
  using sint_of_int_range [of "- int m"] by simp

lemma sint_eqD: "sint (v :: 64 word) = sint w \<Longrightarrow> v = w"
  by (rule signed_word_eqI)

lemma loop_range_value:
  "ParseUint_loop n ds = (u, Some ErrRange) \<Longrightarrow> u = maxUint64"
proof (induction ds arbitrary: n)
  case Nil
  then show ?case by simp
next
  case (Cons c ds)
  show ?case
  proof (cases "is_digit c")
    case True
    then have dig: "(48::nat) \<le> of_char c" "of_char c \<le> (57::nat)"
      by (simp_all add: is_digit_def)
    from Cons.prems Cons.IH show ?thesis
      by (simp add: dig Let_def split: if_splits)
  next
    case False
    with Cons.prems show ?thesis
      by (simp add: loop_Cons_not_digit del: ParseUint_loop.simps)
  qed
qed

lemma ParseUint_cases:
  obtains (ok) "ds \<noteq> []" "list_all is_digit ds" "decimal 0 ds < 2 ^ 64"
      "ParseUint ds = (of_nat (decimal 0 ds), None)"
  | (out_of_range) "ParseUint ds = (maxUint64, Some ErrRange)"
      "\<not> (ds \<noteq> [] \<and> list_all is_digit ds \<and> decimal 0 ds < 2 ^ 64)"
  | (bad_syntax) "snd (ParseUint ds) = Some ErrSyntax" "\<not> (ds \<noteq> [] \<and> list_all is_digit ds)"
proof (cases "snd (ParseUint ds)")
  case None
  then have "ds \<noteq> [] \<and> list_all is_digit ds \<and> decimal 0 ds < 2 ^ 64"
    by (simp add: ParseUint_None_iff)
  then show ?thesis
    using ok ParseUint_value [of ds] by simp
next
  case (Some e)
  then have no: "\<not> (ds \<noteq> [] \<and> list_all is_digit ds \<and> decimal 0 ds < 2 ^ 64)"
    using ParseUint_None_iff [of ds] by simp
  show ?thesis
  proof (cases e)
    case ErrSyntax
    have "\<not> (ds \<noteq> [] \<and> list_all is_digit ds)"
    proof
      assume a: "ds \<noteq> [] \<and> list_all is_digit ds"
      then have "snd (ParseUint ds) \<noteq> Some ErrSyntax"
        using loop_digits [of ds 0] by (simp add: ParseUint_def)
      with Some ErrSyntax show False by simp
    qed
    with Some ErrSyntax show ?thesis using bad_syntax by simp
  next
    case ErrRange
    obtain u where u: "ParseUint ds = (u, Some ErrRange)"
      using Some ErrRange by (cases "ParseUint ds") simp
    then have "ds \<noteq> []" by (auto simp: ParseUint_def)
    with u have "ParseUint_loop 0 ds = (u, Some ErrRange)" by (simp add: ParseUint_def)
    then have "u = maxUint64" by (rule loop_range_value)
    with u no show ?thesis using out_of_range by simp
  qed
qed

lemma maxUint64_cutoff: "(2 ^ 63 :: 64 word) \<le> maxUint64" "(2 ^ 63 :: 64 word) < maxUint64"
  by (simp_all add: maxUint64_def)

lemma ParseInt_correct:
  "ParseInt s = (v, None) \<longleftrightarrow> decimal_integer s = Some (sint v)"
proof (cases "s = []")
  case True
  then show ?thesis by (simp add: ParseInt_def decimal_integer_def)
next
  case ne: False
  define neg where "neg = (hd s = CHR ''-'')"
  define ds where "ds = (if hd s = CHR ''+'' \<or> hd s = CHR ''-'' then tl s else s)"
  define m where "m = decimal 0 ds"
  have P: "ParseInt s =
      (case ParseUint ds of (un, err) \<Rightarrow>
         if err = Some ErrSyntax then (0, err)
         else if \<not> neg \<and> un \<ge> 2 ^ 63 then (2 ^ 63 - 1, Some ErrRange)
         else if neg \<and> un > 2 ^ 63 then (- (2 ^ 63), Some ErrRange)
         else (if neg then - un else un, None))"
    unfolding neg_def ds_def ParseInt_def Let_def using ne by (simp split: prod.split)
  have D: "decimal_integer s =
      (if ds \<noteq> [] \<and> list_all is_digit ds then Some (if neg then - int m else int m) else None)"
    unfolding neg_def ds_def m_def decimal_integer_def Let_def using ne by simp
  have lo: "- (2 ^ 63) \<le> sint v" and hi: "sint v < 2 ^ 63"
    using sint_ge [of v] sint_lt [of v] by simp_all
  show ?thesis
  proof (cases ds rule: ParseUint_cases)
    case ok
    then have U: "ParseUint ds = (of_nat m, None)" and m64: "m < 2 ^ 64"
      by (simp_all add: m_def)
    have D': "decimal_integer s = Some (if neg then - int m else int m)"
      using ok D by simp
    note c1 = le_cutoff_of_nat [OF m64] and c2 = less_cutoff_of_nat [OF m64]
    show ?thesis
    proof (cases neg)
      case True
      show ?thesis
      proof (cases "m \<le> 2 ^ 63")
        case le: True
        then have R: "ParseInt s = (- of_nat m, None)"
          using True c2 by (simp add: P U)
        have s: "sint (- of_nat m :: 64 word) = - int m"
          using le by (rule sint_neg_of_nat)
        have "v = - of_nat m \<longleftrightarrow> sint v = - int m"
          using s sint_eqD [of v "- of_nat m"] by auto
        then show ?thesis using True by (auto simp: R D')
      next
        case gt: False
        then have R: "snd (ParseInt s) = Some ErrRange"
          using True c2 by (simp add: P U)
        have "sint v \<noteq> - int m" using gt lo by simp
        then show ?thesis using True R by (auto simp: D')
      qed
    next
      case False
      show ?thesis
      proof (cases "m < 2 ^ 63")
        case lt: True
        then have R: "ParseInt s = (of_nat m, None)"
          using False c1 by (simp add: P U)
        have s: "sint (of_nat m :: 64 word) = int m"
          using lt by (rule sint_of_nat_small)
        have "v = of_nat m \<longleftrightarrow> sint v = int m"
          using s sint_eqD [of v "of_nat m"] by auto
        then show ?thesis using False by (auto simp: R D')
      next
        case ge: False
        then have R: "snd (ParseInt s) = Some ErrRange"
          using False c1 by (simp add: P U)
        have "sint v \<noteq> int m" using ge hi by simp
        then show ?thesis using False R by (auto simp: D')
      qed
    qed
  next
    case out_of_range
    then have R: "snd (ParseInt s) = Some ErrRange"
      using maxUint64_cutoff by (simp add: P)
    have "decimal_integer s \<noteq> Some (sint v)"
    proof (cases "ds \<noteq> [] \<and> list_all is_digit ds")
      case True
      with out_of_range have "2 ^ 64 \<le> m" by (simp add: m_def)
      then have "sint v \<noteq> int m" "sint v \<noteq> - int m" using lo hi by simp_all
      then show ?thesis using True by (auto simp: D)
    next
      case False
      then show ?thesis by (auto simp: D)
    qed
    then show ?thesis using R by auto
  next
    case bad_syntax
    then have R: "snd (ParseInt s) = Some ErrSyntax"
      by (cases "ParseUint ds") (simp add: P)
    have "decimal_integer s = None" using bad_syntax by (auto simp: D)
    then show ?thesis using R by auto
  qed
qed

lemma parse_interval:
  assumes "fst (fst (parseCommonConfig ext w c)) = Some conf"
  shows "\<exists>v. ParseInt (GetStringFlagValue c ''interval'') = (v, None) \<and> 0 < sint v \<and>
             Interval conf = v * Second"
proof -
  from assms obtain c1 c2 c3 where
    c2: "setInterval c (setUrlFetcher ext c c1) = Inr c2" and
    c3: "setFilter ext c c2 = Inr c3" and
    conf: "conf = setAggregateIgnoreLabels c c3"
    by (rule parse_SomeD)
  from setInterval_Inr [OF c2] obtain v where
    v: "ParseInt (GetStringFlagValue c ''interval'') = (v, None)" "0 < sint v"
    and "interval c2 = v * Second"
    by auto
  moreover have "interval c3 = interval c2"
    using c3 by (auto simp: setFilter_eq split: if_splits sum.splits)
  ultimately have "Interval conf = v * Second"
    by (simp add: conf setAggregateIgnoreLabels_eq Interval_def)
  with v show ?thesis by blast
qed

lemma interval_error:
  assumes "snd (ParseInt (GetStringFlagValue c ''interval'')) \<noteq> None
         \<or> sint (fst (ParseInt (GetStringFlagValue c ''interval''))) \<le> 0"
  shows "\<exists>e. fst (parseCommonConfig ext w c) = (None, Some e)"
proof -
  have "fst (fst (parseCommonConfig ext w c)) = None"
  proof (rule ccontr)
    assume "fst (fst (parseCommonConfig ext w c)) \<noteq> None"
    then obtain conf where "fst (fst (parseCommonConfig ext w c)) = Some conf"
      by blast
    from parse_interval [OF this] assms show False by auto
  qed
  then show ?thesis by (simp add: parse_error_iff)
qed

lemma interval_decimal:
  assumes "fst (fst (parseCommonConfig ext w c)) = Some conf"
  shows "\<exists>k. decimal_integer (GetStringFlagValue c ''interval'') = Some k \<and> 0 < k \<and> k < 2 ^ 63 \<and>
             Interval conf = word_of_int k * Second"
proof -
  from parse_interval [OF assms] obtain v where
    v: "ParseInt (GetStringFlagValue c ''interval'') = (v, None)" and pos: "0 < sint v"
    and i: "Interval conf = v * Second"
    by blast
  from v have "decimal_integer (GetStringFlagValue c ''interval'') = Some (sint v)"
    by (simp add: ParseInt_correct)
  moreover have "sint v < 2 ^ 63"
    using sint_lt [of v] by simp
  moreover have "word_of_int (sint v) = v"
    by simp
  ultimately show ?thesis
    using pos i by auto
qed

lemma interval_rejected:
  assumes "\<forall>k. decimal_integer (GetStringFlagValue c ''interval'') = Some k \<longrightarrow> k \<le> 0 \<or> 2 ^ 63 \<le> k"
  shows "\<exists>e. fst (parseCommonConfig ext w c) = (None, Some e)"
proof -
  have "fst (fst (parseCommonConfig ext w c)) = None"
  proof (rule ccontr)
    assume "fst (fst (parseCommonConfig ext w c)) \<noteq> None"
    then obtain conf where "fst (fst (parseCommonConfig ext w c)) = Some conf"
      by blast
    from interval_decimal [OF this] assms show False by auto
  qed
  then show ?thesis by (simp add: parse_error_iff)
qed

lemma seconds_no_overflow:
  fixes v :: "64 word"
  assumes "0 < sint v" and "sint v \<le> 9223372036"
  shows "sint (v * Second) = sint v * 1000000000"
proof -
  have s: "sint Second = 1000000000"
    by (simp add: Second_def)
  have "sint (v * Second) = signed_take_bit 63 (sint v * 1000000000)"
    by (simp add: sint_word_ariths s)
  also have "\<dots> = sint v * 1000000000"
    using assms by (intro signed_take_bit_int_eq_self) simp_all
  finally show ?thesis .
qed

lemma interval_in_seconds:
  assumes "fst (fst (parseCommonConfig ext w c)) = Some conf"
    and "ParseInt (GetStringFlagValue c ''interval'') = (v, e)"
    and "sint v \<le> 9223372036"
  shows "1000000000 \<le> sint (Interval conf) \<and> sint (Interval conf) = sint v * 1000000000"
  using parse_interval [OF assms(1)] assms(2,3) seconds_no_overflow [of v]
  by auto

lemma default_interval:
  assumes "fst (fst (parseCommonConfig ext w c)) = Some conf"
    and "GetStringFlagValue c ''interval'' = DefaultValue IntervalFlag"
  shows "sint (Interval conf) = 5 * 1000000000"
proof -
  have "ParseInt (GetStringFlagValue c ''interval'') = (5, None)"
    by (simp add: assms(2) IntervalFlag_def ParseInt_def ParseUint_def maxUint64_def)
  from interval_in_seconds [OF assms(1) this] show ?thesis by simp
qed

lemma parse_filter_not_nil:
  assumes "fst (fst (parseCommonConfig ext w c)) = Some conf"
  shows "Filter conf \<noteq> None"
proof -
  from assms obtain c2 c3 where
    c3: "setFilter ext c c2 = Inr c3" and conf: "conf = setAggregateIgnoreLabels c c3"
    by (rule parse_SomeD)
  from c3 show ?thesis
    by (auto simp: conf setAggregateIgnoreLabels_eq setFilter_eq Filter_def
        split: if_splits sum.splits)
qed

text \<open>
  C2 is what the code is meant to do and does up to 9223372036 seconds: a flag value
  that does not denote an integer in base 10, or denotes one that is not positive, is
  refused (\<open>interval_rejected\<close>), an accepted one denotes a positive integer
  (\<open>interval_decimal\<close>), and the interval is that number of seconds
  (\<open>interval_in_seconds\<close>). Above that the multiplication of line 174
  wraps around: the flag value \<^verbatim>\<open>9223372037\<close> parses as a positive integer, the call
  succeeds, and the interval is a negative number of nanoseconds, not 9223372037
  seconds.
\<close>

theorem interval_wraps_around:
  "ParseInt ''9223372037'' = (9223372037, None)
   \<and> fst (parseCommonConfig ext_ex world_ex
        (ctx [(''file'', ''metrics.log''), (''interval'', ''9223372037'')] []))
     = (Some \<lparr>file_c = ''metrics.log'', urlMetricsFetcher = None,
              interval = 9223372037000000000,
              filter_c = Some (OpStar OpAnyCharNotNL), aggregateIgnoreLabels = {}\<rparr>, None)
   \<and> sint (9223372037000000000 :: Duration) = - 9223372036709551616"
  by (simp add: eval_defs)

text \<open>
  C10: the filter of a returned configuration is never nil (\<open>parse_filter_not_nil\<close>),
  but its interval can be less than one second, by the same wrap-around: the flag value
  \<^verbatim>\<open>36028797018963968\<close>, which is \<open>2 ^ 55\<close>, parses as a positive integer, the call
  succeeds, and \<open>Interval\<close> returns zero.
\<close>

theorem interval_can_be_zero:
  "fst (parseCommonConfig ext_ex world_ex
        (ctx [(''file'', ''metrics.log''), (''interval'', ''36028797018963968'')] []))
     = (Some \<lparr>file_c = ''metrics.log'', urlMetricsFetcher = None, interval = 0,
              filter_c = Some (OpStar OpAnyCharNotNL), aggregateIgnoreLabels = {}\<rparr>, None)
   \<and> Interval \<lparr>file_c = ''metrics.log'',
               urlMetricsFetcher = None :: (string \<times> string \<times> string) option, interval = 0,
               filter_c = Some (OpStar OpAnyCharNotNL), aggregateIgnoreLabels = {}\<rparr> = 0"
  by (simp add: eval_defs Interval_def)

end
